theory Spec2Isabelle
  imports Main "HOL-Library.Word" "HOL-Library.Sublist"
begin

section \<open>Programs with a state and exceptions\<close>

text \<open>
  A Python function that mutates state and may raise is a function from the state to a
  result and a new state. The result is \<open>Inl e\<close> when the exception \<open>e\<close> leaves the
  function and \<open>Inr v\<close> when it returns \<open>v\<close>. State changes made before a raise stay.
\<close>

type_synonym ('s, 'e, 'a) prog = "'s \<Rightarrow> ('e + 'a) \<times> 's"

definition ret :: "'a \<Rightarrow> ('s, 'e, 'a) prog" where
  "ret v s = (Inr v, s)"

definition bind :: "('s, 'e, 'a) prog \<Rightarrow> ('a \<Rightarrow> ('s, 'e, 'b) prog) \<Rightarrow> ('s, 'e, 'b) prog" where
  "bind m f s = (case m s of (Inl e, s') \<Rightarrow> (Inl e, s') | (Inr v, s') \<Rightarrow> f v s')"

text \<open>
  \<^verbatim>\<open>try: body finally: fin\<close> where \<open>fin\<close> only assigns: \<open>fin\<close> runs on the state the
  body left, whether the body returned or raised, and the body's outcome is passed on.
\<close>

definition try_finally :: "('s, 'e, 'a) prog \<Rightarrow> ('s \<Rightarrow> 's) \<Rightarrow> ('s, 'e, 'a) prog" where
  "try_finally body fin s = (case body s of (r, s') \<Rightarrow> (r, fin s'))"


section \<open>The exporter: \<^verbatim>\<open>torch/onnx/_internal/fx/exporter.py\<close>\<close>

subsection \<open>Data\<close>

text \<open>
  A positional argument is a Python object or \<^verbatim>\<open>None\<close>: \<open>'v option\<close>. Keyword
  arguments are a dictionary in call order.
\<close>

type_synonym 'v args = "'v option list"
type_synonym 'v kwargs = "(string \<times> 'v option) list"
type_synonym bytes = "8 word list"

text \<open>A Python callable of the model: it takes \<^verbatim>\<open>*args, **kwargs\<close> and returns or raises.\<close>

type_synonym ('v, 'e, 'r) callable = "'v args \<Rightarrow> 'v kwargs \<Rightarrow> 'e + 'r"

text \<open>
  \<^verbatim>\<open>fn: Union[torch.nn.Module, Callable]\<close>. A module is called through its
  \<^verbatim>\<open>forward\<close> method.
\<close>

datatype ('v, 'e, 'r) fn =
    Module (forward: "('v, 'e, 'r) callable")
  | Callable "('v, 'e, 'r) callable"

text \<open>
  Modelled from the spec: the class \<^verbatim>\<open>options.ExportOptions\<close> is not part of the
  sources. The spec names the export options: opset version, binary or structured output,
  op-level validation flag. The record has these and the decomposition table, the four
  attributes that \<^verbatim>\<open>_export\<close> reads and its callers set.
\<close>

record 'tbl ExportOptions =
  opset_version :: int
  use_binary_format :: bool
  op_level_debug :: bool
  decomposition_table :: 'tbl

text \<open>
  \<^verbatim>\<open>Union["onnx.ModelProto", bytes]\<close>, the return type of the three functions.
\<close>

datatype 'p exported = Serialized bytes | ModelProto 'p

text \<open>
  The passes, frontends and constants of the host framework that the exporter calls.
  They are parameters: each pass maps its arguments to a result or to the exception it
  raises. \<open>'gm\<close> is \<^verbatim>\<open>torch.fx.GraphModule\<close>, \<open>'g\<close> the onnxscript graph, \<open>'p\<close>
  \<^verbatim>\<open>onnx.ModelProto\<close>, \<open>'tbl\<close> a decomposition table, \<open>'out\<close> what the model returns,
  \<open>'leaf\<close> a leaf of that output and \<open>'spec\<close> the tree structure that
  \<^verbatim>\<open>_pytree.tree_flatten\<close> returns beside the leaves.
\<close>

record ('v, 'e, 'out, 'leaf, 'spec, 'gm, 'tbl, 'g, 'p) framework =
  DynamoExport_trace :: "('v, 'e, 'out) fn \<Rightarrow> 'v args \<Rightarrow> 'e + 'gm"
  FxFrontendUnpackKwargs_trace ::
    "('v, 'e, 'leaf list) callable \<Rightarrow> 'v args \<Rightarrow> 'v kwargs \<Rightarrow> 'e + 'gm \<times> 'v args"
  Decompose_run :: "'gm \<Rightarrow> 'tbl \<Rightarrow> 'v args \<Rightarrow> 'e + 'gm"
  ShapeInferenceWithFakeTensor_run :: "'gm \<Rightarrow> 'v args \<Rightarrow> 'e + 'gm"
  export_fx_to_onnxscript :: "'gm \<Rightarrow> 'tbl ExportOptions \<Rightarrow> 'e + 'g"
  to_model_proto :: "'g \<Rightarrow> int \<Rightarrow> 'e + 'p"
  SerializeToString :: "'p \<Rightarrow> 'e + bytes"
  tree_flatten :: "'out \<Rightarrow> 'leaf list \<times> 'spec"
  ONNX_FRIENDLY_DECOMPOSITION_TABLE :: 'tbl

text \<open>
  Every call that the exporter makes into the framework is recorded, with its arguments,
  in the order in which it is made.
\<close>

datatype ('v, 'e, 'out, 'leaf, 'gm, 'tbl, 'g, 'p) call =
    Trace_DynamoExport "('v, 'e, 'out) fn" "'v args"
  | Trace_UnpackKwargs "('v, 'e, 'leaf list) callable" "'v args" "'v kwargs"
  | Decompose 'gm 'tbl "'v args"
  | ShapeInferenceWithFakeTensor 'gm "'v args"
  | Export_fx_to_onnxscript 'gm "'tbl ExportOptions"
  | To_model_proto 'g int
  | Serialize_to_string 'p

record ('v, 'e, 'out, 'leaf, 'gm, 'tbl, 'g, 'p) exporter_state =
  calls :: "('v, 'e, 'out, 'leaf, 'gm, 'tbl, 'g, 'p) call list"
  dispatch_enabled :: bool

text \<open>A framework call: the call is recorded and the framework's answer passed on.\<close>

definition invoke ::
  "('v, 'e, 'out, 'leaf, 'gm, 'tbl, 'g, 'p) call \<Rightarrow> 'e + 'a \<Rightarrow>
   (('v, 'e, 'out, 'leaf, 'gm, 'tbl, 'g, 'p) exporter_state, 'e, 'a) prog" where
  "invoke c answer s = (answer, s\<lparr>calls := calls s @ [c]\<rparr>)"

text \<open>
  Modelled from the spec: \<^verbatim>\<open>torch.utils._mode_utils.no_dispatch\<close> is not part of the
  sources. The comment above its use says that the dispatch mode must be disabled for the
  body; the spec says that the exporter passes on whatever the passes raise. So the guard
  switches dispatch off for the body, restores it on exit and lets an exception through.
\<close>

definition no_dispatch ::
  "(('v, 'e, 'out, 'leaf, 'gm, 'tbl, 'g, 'p) exporter_state, 'e, 'a) prog \<Rightarrow>
   (('v, 'e, 'out, 'leaf, 'gm, 'tbl, 'g, 'p) exporter_state, 'e, 'a) prog" where
  "no_dispatch body s =
     try_finally body (\<lambda>s'. s'\<lparr>dispatch_enabled := dispatch_enabled s\<rparr>)
       (s\<lparr>dispatch_enabled := False\<rparr>)"

subsection \<open>\<^verbatim>\<open>_export\<close>\<close>

text \<open>
  Modelled from the spec: \<^verbatim>\<open>ExportOptions.update\<close> is not part of the sources.
  \<^verbatim>\<open>export_options = options.ExportOptions(); export_options.update(**kwargs)\<close>: both
  callers pass the same four keywords, and \<^verbatim>\<open>update\<close> stores each under its own name,
  so that the options are the ones the caller asked for.
\<close>

definition ExportOptions_update ::
  "int \<Rightarrow> 'tbl \<Rightarrow> bool \<Rightarrow> bool \<Rightarrow> 'tbl ExportOptions" where
  "ExportOptions_update opset table binary debug =
     \<lparr>opset_version = opset, use_binary_format = binary, op_level_debug = debug,
      decomposition_table = table\<rparr>"

definition export_impl ::
  "('v, 'e, 'out, 'leaf, 'spec, 'gm, 'tbl, 'g, 'p) framework \<Rightarrow> 'gm \<Rightarrow> 'v args \<Rightarrow>
   int \<Rightarrow> 'tbl \<Rightarrow> bool \<Rightarrow> bool \<Rightarrow>
   (('v, 'e, 'out, 'leaf, 'gm, 'tbl, 'g, 'p) exporter_state, 'e, 'p exported) prog" where
  "export_impl fw module args opset table binary debug =
     (let export_options = ExportOptions_update opset table binary debug in
      bind (invoke (Decompose module (decomposition_table export_options) args)
              (Decompose_run fw module (decomposition_table export_options) args))
        (\<lambda>decomposed_module.
      bind (invoke (ShapeInferenceWithFakeTensor decomposed_module args)
              (ShapeInferenceWithFakeTensor_run fw decomposed_module args))
        (\<lambda>decomposed_module.
      bind (no_dispatch
              (invoke (Export_fx_to_onnxscript decomposed_module export_options)
                 (export_fx_to_onnxscript fw decomposed_module export_options)))
        (\<lambda>onnxscript_graph.
      bind (invoke (To_model_proto onnxscript_graph (opset_version export_options))
              (to_model_proto fw onnxscript_graph (opset_version export_options)))
        (\<lambda>onnx_model.
      if use_binary_format export_options
      then bind (invoke (Serialize_to_string onnx_model) (SerializeToString fw onnx_model))
             (\<lambda>b. ret (Serialized b))
      else ret (ModelProto onnx_model))))))"

subsection \<open>\<^verbatim>\<open>export\<close>\<close>

definition export ::
  "('v, 'e, 'out, 'leaf, 'spec, 'gm, 'tbl, 'g, 'p) framework \<Rightarrow> ('v, 'e, 'out) fn \<Rightarrow>
   'v args \<Rightarrow> bool \<Rightarrow> int \<Rightarrow> bool \<Rightarrow>
   (('v, 'e, 'out, 'leaf, 'gm, 'tbl, 'g, 'p) exporter_state, 'e, 'p exported) prog" where
  "export fw fn args binary opset debug =
     bind (invoke (Trace_DynamoExport fn args) (DynamoExport_trace fw fn args))
       (\<lambda>graph_module.
          export_impl fw graph_module args opset (ONNX_FRIENDLY_DECOMPOSITION_TABLE fw)
            binary debug)"

subsection \<open>\<^verbatim>\<open>export_after_normalizing_args_and_kwargs\<close>\<close>

text \<open>
  \<^verbatim>\<open>wrapper(fn)\<close>: the inner function calls \<^verbatim>\<open>fn.forward\<close> or \<^verbatim>\<open>fn\<close> and returns the
  first component of \<^verbatim>\<open>tree_flatten\<close> of the result. An exception of the call leaves
  the inner function.
\<close>

definition fn_call :: "('v, 'e, 'r) fn \<Rightarrow> ('v, 'e, 'r) callable" where
  "fn_call fn = (case fn of Module fwd \<Rightarrow> fwd | Callable f \<Rightarrow> f)"

definition wrapper ::
  "('v, 'e, 'out, 'leaf, 'spec, 'gm, 'tbl, 'g, 'p) framework \<Rightarrow> ('v, 'e, 'out) fn \<Rightarrow>
   ('v, 'e, 'leaf list) callable" where
  "wrapper fw fn args kwargs =
     (case fn_call fn args kwargs of
        Inl e \<Rightarrow> Inl e
      | Inr out \<Rightarrow> (case tree_flatten fw out of (result, _) \<Rightarrow> Inr result))"

definition export_after_normalizing_args_and_kwargs ::
  "('v, 'e, 'out, 'leaf, 'spec, 'gm, 'tbl, 'g, 'p) framework \<Rightarrow> ('v, 'e, 'out) fn \<Rightarrow>
   'v args \<Rightarrow> bool \<Rightarrow> int \<Rightarrow> bool \<Rightarrow> 'v kwargs \<Rightarrow>
   (('v, 'e, 'out, 'leaf, 'gm, 'tbl, 'g, 'p) exporter_state, 'e, 'p exported) prog" where
  "export_after_normalizing_args_and_kwargs fw fn args binary opset debug kwargs =
     (let wrapped_fn = wrapper fw fn in
      bind (invoke (Trace_UnpackKwargs wrapped_fn args kwargs)
              (FxFrontendUnpackKwargs_trace fw wrapped_fn args kwargs))
        (\<lambda>(captured_graph, bound_args).
           export_impl fw captured_graph (filter (\<lambda>arg. arg \<noteq> None) bound_args) opset
             (ONNX_FRIENDLY_DECOMPOSITION_TABLE fw) binary debug))"


text \<open>The kinds of framework call, for statements about their order alone.\<close>

datatype step =
  TRACE | DECOMPOSE | SHAPE_INFERENCE | FX_TO_ONNXSCRIPT | TO_MODEL_PROTO | SERIALIZE

fun step_of :: "('v, 'e, 'out, 'leaf, 'gm, 'tbl, 'g, 'p) call \<Rightarrow> step" where
  "step_of (Trace_DynamoExport _ _) = TRACE"
| "step_of (Trace_UnpackKwargs _ _ _) = TRACE"
| "step_of (Decompose _ _ _) = DECOMPOSE"
| "step_of (ShapeInferenceWithFakeTensor _ _) = SHAPE_INFERENCE"
| "step_of (Export_fx_to_onnxscript _ _) = FX_TO_ONNXSCRIPT"
| "step_of (To_model_proto _ _) = TO_MODEL_PROTO"
| "step_of (Serialize_to_string _) = SERIALIZE"

definition all_steps :: "step list" where
  "all_steps = [TRACE, DECOMPOSE, SHAPE_INFERENCE, FX_TO_ONNXSCRIPT, TO_MODEL_PROTO, SERIALIZE]"


subsection \<open>Calling the entry points\<close>

text \<open>
  The two signatures differ in one place: \<^verbatim>\<open>export\<close> has no \<^verbatim>\<open>**kwargs\<close>.
  \<^verbatim>\<open>def export(fn, *args, use_binary_format=True, opset_version=..., op_level_debug=False)\<close>
  and the same with \<^verbatim>\<open>**kwargs\<close> for \<^verbatim>\<open>export_after_normalizing_args_and_kwargs\<close>.
  Python binds the arguments of a call to the parameters of a signature as follows;
  a call that cannot be bound raises \<^verbatim>\<open>TypeError\<close> before the body runs.
\<close>

record signature =
  positional_params :: "string list"
  var_positional :: bool
  keyword_only_params :: "string list"
  var_keyword :: bool

definition export_signature :: signature where
  "export_signature =
     \<lparr>positional_params = [''fn''], var_positional = True,
      keyword_only_params = [''use_binary_format'', ''opset_version'', ''op_level_debug''],
      var_keyword = False\<rparr>"

definition export_after_normalizing_args_and_kwargs_signature :: signature where
  "export_after_normalizing_args_and_kwargs_signature =
     \<lparr>positional_params = [''fn''], var_positional = True,
      keyword_only_params = [''use_binary_format'', ''opset_version'', ''op_level_debug''],
      var_keyword = True\<rparr>"

record 'v invocation =
  positional_args :: "'v list"
  keyword_args :: "(string \<times> 'v) list"

record 'v bound_arguments =
  named :: "(string \<times> 'v) list"
  star_args :: "'v list"
  star_kwargs :: "(string \<times> 'v) list"

datatype type_error =
    Missing_argument string
  | Too_many_positional
  | Multiple_values string
  | Unexpected_keyword string

fun bind_keywords ::
  "signature \<Rightarrow> (string \<times> 'v) list \<Rightarrow> 'v bound_arguments \<Rightarrow> type_error + 'v bound_arguments" where
  "bind_keywords sg [] b = Inr b"
| "bind_keywords sg ((k, v) # kvs) b =
     (if k \<in> set (positional_params sg) \<or> k \<in> set (keyword_only_params sg) then
        (if k \<in> fst ` set (named b) then Inl (Multiple_values k)
         else bind_keywords sg kvs (b\<lparr>named := named b @ [(k, v)]\<rparr>))
      else if var_keyword sg then
        (if k \<in> fst ` set (star_kwargs b) then Inl (Multiple_values k)
         else bind_keywords sg kvs (b\<lparr>star_kwargs := star_kwargs b @ [(k, v)]\<rparr>))
      else Inl (Unexpected_keyword k))"

definition bind_call :: "signature \<Rightarrow> 'v invocation \<Rightarrow> type_error + 'v bound_arguments" where
  "bind_call sg ivc =
     (let n = length (positional_params sg);
          b0 = \<lparr>named = zip (positional_params sg) (positional_args ivc),
                star_args = drop n (positional_args ivc), star_kwargs = []\<rparr>
      in if n < length (positional_args ivc) \<and> \<not> var_positional sg then Inl Too_many_positional
         else case bind_keywords sg (keyword_args ivc) b0 of
                Inl e \<Rightarrow> Inl e
              | Inr b \<Rightarrow>
                  (case filter (\<lambda>p. p \<notin> fst ` set (named b)) (positional_params sg) of
                     [] \<Rightarrow> Inr b
                   | p # _ \<Rightarrow> Inl (Missing_argument p)))"

definition accepts :: "signature \<Rightarrow> 'v invocation \<Rightarrow> bool" where
  "accepts sg ivc = (case bind_call sg ivc of Inl _ \<Rightarrow> False | Inr _ \<Rightarrow> True)"

definition option_names :: "string list" where
  "option_names = [''use_binary_format'', ''opset_version'', ''op_level_debug'']"

text \<open>A keyword that names a parameter of the signature.\<close>

definition nameable :: "signature \<Rightarrow> string \<Rightarrow> bool" where
  "nameable sg k \<longleftrightarrow> k \<in> set (positional_params sg) \<or> k \<in> set (keyword_only_params sg)"

subsection \<open>The entry points as they are called\<close>











section \<open>The test: \<^verbatim>\<open>test/distributed/fsdp/test_fsdp_hybrid_shard.py\<close>\<close>

subsection \<open>Names bound at module level\<close>

text \<open>
  \<^verbatim>\<open>import a.b.c\<close> binds \<^verbatim>\<open>a\<close>; \<^verbatim>\<open>import a.b.c as n\<close> binds \<^verbatim>\<open>n\<close>;
  \<^verbatim>\<open>from m import x, y as z\<close> binds \<^verbatim>\<open>x\<close> and \<^verbatim>\<open>z\<close>.
\<close>

datatype import_stmt =
    Import "string list" "string option"
  | From_import "string list" "(string \<times> string option) list"

fun binds :: "import_stmt \<Rightarrow> string list" where
  "binds (Import path None) = take 1 path"
| "binds (Import path (Some name)) = [name]"
| "binds (From_import path names) =
     map (\<lambda>(name, as_name). case as_name of None \<Rightarrow> name | Some a \<Rightarrow> a) names"

text \<open>Lines 3 to 37 of the test file, in order.\<close>

definition module_imports :: "import_stmt list" where
  "module_imports =
    [From_import [''copy''] [(''deepcopy'', None)],
     Import [''functools''] None,
     Import [''sys''] None,
     From_import [''collections''] [(''namedtuple'', None)],
     From_import [''contextlib''] [(''suppress'', None)],
     Import [''contextlib''] None,
     Import [''torch''] None,
     Import [''torch'', ''distributed''] (Some ''dist''),
     Import [''torch'', ''nn''] (Some ''nn''),
     From_import [''torch'', ''distributed'', ''fsdp''] [(''FlatParameter'', None)],
     From_import [''torch'', ''distributed'', ''fsdp'']
       [(''FullyShardedDataParallel'', Some ''FSDP'')],
     From_import [''torch'', ''distributed'', ''fsdp'']
       [(''ShardingStrategy'', None), (''CPUOffload'', None)],
     From_import [''torch'', ''distributed'', ''fsdp'', ''wrap'']
       [(''always_wrap_policy'', None), (''transformer_auto_wrap_policy'', None)],
     From_import [''torch'', ''nn'']
       [(''TransformerDecoderLayer'', None), (''TransformerEncoderLayer'', None)],
     From_import [''torch'', ''testing'', ''_internal'', ''common_distributed'']
       [(''skip_if_lt_x_gpu'', None)],
     From_import [''torch'', ''testing'', ''_internal'', ''common_fsdp'']
       [(''CUDAInitMode'', None), (''FSDPInitMode'', None), (''FSDPTest'', None),
        (''NestedWrappedModule'', None), (''TransformerWithSharedParams'', None),
        (''_assert_module_states'', None)],
     From_import [''torch'', ''testing'', ''_internal'', ''common_utils'']
       [(''TEST_WITH_DEV_DBG_ASAN'', None), (''instantiate_parametrized_tests'', None),
        (''parametrize'', None), (''run_tests'', None)],
     From_import [''torch'', ''distributed'', ''distributed_c10d'']
       [(''_rank_not_in_group'', None)]]"

text \<open>The two functions and the class that the module defines.\<close>

definition module_definitions :: "string list" where
  "module_definitions = [''patch_reduce_scatter'', ''patch_allreduce'', ''TestFSDPHybridShard'']"

text \<open>The attributes that every module has before its code runs.\<close>

definition module_attributes :: "string list" where
  "module_attributes =
    [''__name__'', ''__doc__'', ''__package__'', ''__loader__'', ''__spec__'', ''__file__'',
     ''__cached__'', ''__builtins__'']"

definition static_globals :: "string list" where
  "static_globals = module_attributes @ concat (map binds module_imports) @ module_definitions"

text \<open>The names of Python's \<^verbatim>\<open>builtins\<close> module: functions, types, constants, exceptions.\<close>

definition python_builtins :: "string list" where
  "python_builtins =
    [''abs'', ''aiter'', ''all'', ''anext'', ''any'', ''ascii'', ''bin'', ''bool'',
     ''breakpoint'', ''bytearray'', ''bytes'', ''callable'', ''chr'', ''classmethod'',
     ''compile'', ''complex'', ''delattr'', ''dict'', ''dir'', ''divmod'', ''enumerate'',
     ''eval'', ''exec'', ''filter'', ''float'', ''format'', ''frozenset'', ''getattr'',
     ''globals'', ''hasattr'', ''hash'', ''help'', ''hex'', ''id'', ''input'', ''int'',
     ''isinstance'', ''issubclass'', ''iter'', ''len'', ''list'', ''locals'', ''map'', ''max'',
     ''memoryview'', ''min'', ''next'', ''object'', ''oct'', ''open'', ''ord'', ''pow'',
     ''print'', ''property'', ''range'', ''repr'', ''reversed'', ''round'', ''set'',
     ''setattr'', ''slice'', ''sorted'', ''staticmethod'', ''str'', ''sum'', ''super'',
     ''tuple'', ''type'', ''vars'', ''zip'', ''__import__'', ''__build_class__'',
     ''__debug__'', ''None'', ''True'', ''False'', ''Ellipsis'', ''NotImplemented'',
     ''copyright'', ''credits'', ''license'', ''exit'', ''quit'',
     ''BaseException'', ''Exception'', ''ArithmeticError'', ''AssertionError'',
     ''AttributeError'', ''BlockingIOError'', ''BrokenPipeError'', ''BufferError'',
     ''BytesWarning'', ''ChildProcessError'', ''ConnectionAbortedError'', ''ConnectionError'',
     ''ConnectionRefusedError'', ''ConnectionResetError'', ''DeprecationWarning'',
     ''EOFError'', ''EncodingWarning'', ''EnvironmentError'', ''FileExistsError'',
     ''FileNotFoundError'', ''FloatingPointError'', ''FutureWarning'', ''GeneratorExit'',
     ''IOError'', ''ImportError'', ''ImportWarning'', ''IndentationError'', ''IndexError'',
     ''InterruptedError'', ''IsADirectoryError'', ''KeyError'', ''KeyboardInterrupt'',
     ''LookupError'', ''MemoryError'', ''ModuleNotFoundError'', ''NameError'',
     ''NotADirectoryError'', ''NotImplementedError'', ''OSError'', ''OverflowError'',
     ''PendingDeprecationWarning'', ''PermissionError'', ''ProcessLookupError'',
     ''RecursionError'', ''ReferenceError'', ''ResourceWarning'', ''RuntimeError'',
     ''RuntimeWarning'', ''StopAsyncIteration'', ''StopIteration'', ''SyntaxError'',
     ''SyntaxWarning'', ''SystemError'', ''SystemExit'', ''TabError'', ''TimeoutError'',
     ''TypeError'', ''UnboundLocalError'', ''UnicodeDecodeError'', ''UnicodeEncodeError'',
     ''UnicodeError'', ''UnicodeTranslateError'', ''UnicodeWarning'', ''UserWarning'',
     ''ValueError'', ''Warning'', ''ZeroDivisionError'', ''ExceptionGroup'',
     ''BaseExceptionGroup'', ''PythonFinalizationError'']"

subsection \<open>The state of a test process\<close>

text \<open>
  A collective of \<^verbatim>\<open>torch.distributed\<close> is one that the host provides or a wrapper
  such as \<^verbatim>\<open>patched_allreduce\<close>, which prints a line and calls the one it wraps.
\<close>

datatype 'c collective = Host_collective 'c | Printing string "'c collective"

text \<open>
  The module global \<^verbatim>\<open>_CURRENT_FULL_PRECISION_PARAM_DTYPE\<close> has no binding until
  \<^verbatim>\<open>patch_reduce_scatter\<close> assigns it; its value is a dtype or \<^verbatim>\<open>None\<close>.
\<close>

datatype 'd global_var = Unbound | Bound "'d option"

datatype check = AssertEqual | AssertFalse | AssertTrue

record ('c, 'd) process_state =
  all_reduce :: "'c collective"
  reduce_scatter_base :: "'c collective"
  CURRENT_FULL_PRECISION_PARAM_DTYPE :: "'d global_var"
  checks :: "check list"

datatype 'e exn = NameError string | AssertionError | Raised 'e

text \<open>
  A global name is looked up in the module's namespace, then in the builtins; a name found
  in neither raises \<^verbatim>\<open>NameError\<close>.
\<close>

definition global_bound :: "('c, 'd) process_state \<Rightarrow> string \<Rightarrow> bool" where
  "global_bound s name \<longleftrightarrow>
     name \<in> set static_globals \<or>
     (name = ''_CURRENT_FULL_PRECISION_PARAM_DTYPE'' \<and>
      CURRENT_FULL_PRECISION_PARAM_DTYPE s \<noteq> Unbound)"

definition load_global :: "string \<Rightarrow> (('c, 'd) process_state, 'e exn, unit) prog" where
  "load_global name s =
     (if global_bound s name \<or> name \<in> set python_builtins then (Inr (), s)
      else (Inl (NameError name), s))"

fun load_globals :: "string list \<Rightarrow> (('c, 'd) process_state, 'e exn, unit) prog" where
  "load_globals [] = ret ()"
| "load_globals (name # names) = bind (load_global name) (\<lambda>_. load_globals names)"

subsection \<open>The context managers\<close>

text \<open>
  A function under \<^verbatim>\<open>@contextlib.contextmanager\<close> used as \<^verbatim>\<open>with f(...): body\<close>: the
  code before \<^verbatim>\<open>yield\<close> runs, then the body, then the \<^verbatim>\<open>finally\<close> block. An
  exception of the body is thrown into the generator at the \<^verbatim>\<open>yield\<close>, the
  \<^verbatim>\<open>finally\<close> block runs, and the exception leaves the \<^verbatim>\<open>with\<close> statement.
\<close>

definition patch_reduce_scatter ::
  "'c collective \<Rightarrow> 'd option \<Rightarrow> (('c, 'd) process_state, 'x, 'a) prog \<Rightarrow>
   (('c, 'd) process_state, 'x, 'a) prog" where
  "patch_reduce_scatter new_reduce_scatter full_precision_param_dtype body s =
     (let orig_reduce_scatter = reduce_scatter_base s;
          s1 = s\<lparr>reduce_scatter_base := new_reduce_scatter\<rparr>;
          s2 = s1\<lparr>CURRENT_FULL_PRECISION_PARAM_DTYPE := Bound full_precision_param_dtype\<rparr>
      in try_finally body
           (\<lambda>s'. s'\<lparr>reduce_scatter_base := orig_reduce_scatter,
                     CURRENT_FULL_PRECISION_PARAM_DTYPE := Bound None\<rparr>) s2)"

definition patch_allreduce ::
  "'c collective \<Rightarrow> (('c, 'd) process_state, 'x, 'a) prog \<Rightarrow>
   (('c, 'd) process_state, 'x, 'a) prog" where
  "patch_allreduce new_allreduce body s =
     (let orig_ar = all_reduce s;
          s1 = s\<lparr>all_reduce := new_allreduce\<rparr>
      in try_finally body (\<lambda>s'. s'\<lparr>all_reduce := orig_ar\<rparr>) s1)"


subsection \<open>The host framework of the test\<close>

datatype wrap_policy = Transformer_auto_wrap_policy "string list"

record 'k fsdp_kwargs =
  auto_wrap_policy :: wrap_policy
  device_id :: nat
  sharding_strategy :: 'k

text \<open>
  What the test calls in \<^verbatim>\<open>torch\<close>, \<^verbatim>\<open>torch.distributed\<close> and the test utilities. None
  of it is part of the sources, so it is a parameter; every call may raise. \<open>'m\<close> is the
  wrapped model, \<open>'u\<close> one FSDP module of it, \<open>'pg\<close> a process group, \<open>'t\<close> a tensor and
  \<open>'k\<close> a member of an enumeration. The four steps of the training iteration run on the
  process state, since they reach the collectives through \<^verbatim>\<open>torch.distributed\<close>.
\<close>

record ('c, 'd, 'e, 'm, 'u, 'pg, 't, 'k) host =
  HYBRID_SHARD :: 'k
  RECURSIVE :: 'k
  CUDA_BEFORE :: 'k
  cuda_current_device :: "'e + nat"
  get_default_group :: "'e + 'pg"
  TransformerWithSharedParams_init :: "'pg \<Rightarrow> 'k \<Rightarrow> 'k \<Rightarrow> 'k fsdp_kwargs \<Rightarrow> 'e + 'm"
  fsdp_modules :: "'m \<Rightarrow> 'e + 'u list"
  get_sharding_strategy :: "'u \<Rightarrow> 'e + 'k"
  get_inter_node_pg :: "'u \<Rightarrow> 'e + 'pg"
  get_rank :: "'pg \<Rightarrow> 'e + nat"
  get_world_size :: "'pg \<Rightarrow> 'e + nat"
  rank_not_in_group :: "nat \<Rightarrow> 'pg \<Rightarrow> 'e + bool"
  get_input :: "'m \<Rightarrow> (('c, 'd) process_state, 'e, 't) prog"
  model_forward :: "'m \<Rightarrow> 't \<Rightarrow> (('c, 'd) process_state, 'e, 't) prog"
  get_loss :: "'m \<Rightarrow> 't \<Rightarrow> 't \<Rightarrow> (('c, 'd) process_state, 'e, 't) prog"
  backward :: "'t \<Rightarrow> (('c, 'd) process_state, 'e, unit) prog"

definition host_call :: "'e + 'a \<Rightarrow> ('s, 'e exn, 'a) prog" where
  "host_call answer s = (case answer of Inl e \<Rightarrow> (Inl (Raised e), s) | Inr v \<Rightarrow> (Inr v, s))"

definition host_prog :: "('s, 'e, 'a) prog \<Rightarrow> ('s, 'e exn, 'a) prog" where
  "host_prog p s = (case p s of (Inl e, s') \<Rightarrow> (Inl (Raised e), s') | (Inr v, s') \<Rightarrow> (Inr v, s'))"

subsection \<open>The test case\<close>

definition assertEqual :: "'a \<Rightarrow> 'a \<Rightarrow> (('c, 'd) process_state, 'e exn, unit) prog" where
  "assertEqual first second s =
     (if first = second then Inr () else Inl AssertionError,
      s\<lparr>checks := checks s @ [AssertEqual]\<rparr>)"

definition assertFalse :: "bool \<Rightarrow> (('c, 'd) process_state, 'e exn, unit) prog" where
  "assertFalse expr s =
     (if \<not> expr then Inr () else Inl AssertionError, s\<lparr>checks := checks s @ [AssertFalse]\<rparr>)"

definition assertTrue :: "bool \<Rightarrow> (('c, 'd) process_state, 'e exn, unit) prog" where
  "assertTrue expr s =
     (if expr then Inr () else Inl AssertionError, s\<lparr>checks := checks s @ [AssertTrue]\<rparr>)"

fun for_each :: "'a list \<Rightarrow> ('a \<Rightarrow> ('s, 'x, unit) prog) \<Rightarrow> ('s, 'x, unit) prog" where
  "for_each [] body = ret ()"
| "for_each (x # xs) body = bind (body x) (\<lambda>_. for_each xs body)"

text \<open>
  The property \<^verbatim>\<open>process_group\<close>: \<^verbatim>\<open>dist.distributed_c10d._get_default_group()\<close>.
\<close>

definition process_group ::
  "('c, 'd, 'e, 'm, 'u, 'pg, 't, 'k) host \<Rightarrow> (('c, 'd) process_state, 'e exn, 'pg) prog" where
  "process_group h = bind (load_global ''dist'') (\<lambda>_. host_call (get_default_group h))"

text \<open>Lines 112 to 117: the membership checks on one FSDP module.\<close>

definition inter_node_pg_checks ::
  "('c, 'd, 'e, 'm, 'u, 'pg, 't, 'k) host \<Rightarrow> 'u \<Rightarrow>
   (('c, 'd) process_state, 'e exn, unit) prog" where
  "inter_node_pg_checks h fsdp_module =
     bind (host_call (get_inter_node_pg h fsdp_module)) (\<lambda>inter_node_pg.
     bind (load_global ''dist'') (\<lambda>_.
     bind (process_group h) (\<lambda>pg.
     bind (host_call (get_rank h pg)) (\<lambda>my_rank.
     bind (load_globals [''range'', ''dist'']) (\<lambda>_.
     bind (process_group h) (\<lambda>pg.
     bind (host_call (get_world_size h pg)) (\<lambda>world_size.
     let other_ranks = filter (\<lambda>i. i \<noteq> my_rank) [0..<world_size] in
     bind (load_global ''_rank_not_in_group'') (\<lambda>_.
     bind (host_call (rank_not_in_group h my_rank inter_node_pg)) (\<lambda>absent.
     bind (assertFalse absent) (\<lambda>_.
     for_each other_ranks (\<lambda>r.
       bind (load_global ''_rank_not_in_group'') (\<lambda>_.
       bind (host_call (rank_not_in_group h r inter_node_pg)) (\<lambda>absent.
       assertTrue absent)))))))))))))"

definition get_all_reduce :: "(('c, 'd) process_state, 'x, 'c collective) prog" where
  "get_all_reduce s = (Inr (all_reduce s), s)"

definition test_fsdp_hybrid_shard_basic_setup ::
  "('c, 'd, 'e, 'm, 'u, 'pg, 't, 'k) host \<Rightarrow> (('c, 'd) process_state, 'e exn, unit) prog" where
  "test_fsdp_hybrid_shard_basic_setup h =
     bind (load_globals [''functools'', ''transformer_auto_wrap_policy'',
                         ''TransformerEncoderLayer'', ''TransformerDecoderLayer'']) (\<lambda>_.
     let policy = Transformer_auto_wrap_policy
                    [''TransformerEncoderLayer'', ''TransformerDecoderLayer''] in
     bind (load_global ''torch'') (\<lambda>_.
     bind (host_call (cuda_current_device h)) (\<lambda>device.
     bind (load_global ''ShardingStrategy'') (\<lambda>_.
     let kwargs = \<lparr>auto_wrap_policy = policy, device_id = device,
                    sharding_strategy = HYBRID_SHARD h\<rparr> in
     bind (load_global ''TransformerWithSharedParams'') (\<lambda>_.
     bind (process_group h) (\<lambda>pg.
     bind (load_globals [''FSDPInitMode'', ''CUDAInitMode'']) (\<lambda>_.
     bind (host_call (TransformerWithSharedParams_init h pg (RECURSIVE h) (CUDA_BEFORE h)
                        kwargs)) (\<lambda>fsdp_model.
     bind (load_global ''FullyShardedDataParallel'') (\<lambda>_.
     bind (host_call (fsdp_modules h fsdp_model)) (\<lambda>modules.
     bind (for_each modules (\<lambda>fsdp_module.
             bind (load_global ''ShardingStrategy'') (\<lambda>_.
             bind (host_call (get_sharding_strategy h fsdp_module)) (\<lambda>strategy.
             bind (assertEqual (HYBRID_SHARD h) strategy) (\<lambda>_.
             inter_node_pg_checks h fsdp_module))))) (\<lambda>_.
     bind (load_global ''dist'') (\<lambda>_.
     bind get_all_reduce (\<lambda>orig_ar.
     let patched_allreduce = Printing '' -- patched --'' orig_ar in
     bind (load_global ''patch_allreduce'') (\<lambda>_.
     patch_allreduce patched_allreduce
       (bind (host_prog (get_input h fsdp_model)) (\<lambda>inp.
        bind (host_prog (model_forward h fsdp_model inp)) (\<lambda>out.
        bind (host_prog (get_loss h fsdp_model inp out)) (\<lambda>loss.
        host_prog (backward h loss)))))))))))))))))))"


subsection \<open>Hybrid sharding\<close>

text \<open>
  Modelled from the spec: the wrapper that builds the inter-node process group and
  \<^verbatim>\<open>_rank_not_in_group\<close> are not part of the sources. The spec says that under hybrid
  sharding with N total workers the inter-node group observed by a rank contains exactly
  the workers designated as peers at that rank's position and excludes all others, and that
  a process group is a subset of the workers. Here the N workers are numbered node by
  node, \<open>num_devices\<close> on each of \<open>num_nodes\<close> nodes; the position of a worker is its
  index on its node; the peers designated at a position are the workers at that position
  on every node; the group is built by walking over the nodes.
\<close>

definition position :: "nat \<Rightarrow> nat \<Rightarrow> nat" where
  "position num_devices rank = rank mod num_devices"

text \<open>
  Modelled from the spec: the workers designated as peers at the position of \<open>rank\<close>,
  among the \<open>num_nodes * num_devices\<close> workers.
\<close>

definition designated_peers :: "nat \<Rightarrow> nat \<Rightarrow> nat \<Rightarrow> nat set" where
  "designated_peers num_nodes num_devices rank =
     set (filter (\<lambda>w. position num_devices w = position num_devices rank)
            [0..<num_nodes * num_devices])"

text \<open>
  Modelled from the spec: the inter-node process group that \<open>rank\<close> observes, one worker
  of each node.
\<close>

definition inter_node_group :: "nat \<Rightarrow> nat \<Rightarrow> nat \<Rightarrow> nat list" where
  "inter_node_group num_nodes num_devices rank =
     map (\<lambda>node. node * num_devices + position num_devices rank) [0..<num_nodes]"

text \<open>
  Modelled from the spec: a host whose process groups are lists of ranks, as seen from the
  worker \<open>rank\<close>. Everything that is not about process groups is taken from \<open>h\<close>.
\<close>

definition hybrid_shard_host ::
  "nat \<Rightarrow> nat \<Rightarrow> nat \<Rightarrow> ('c, 'd, 'e, 'm, 'u, nat list, 't, 'k) host \<Rightarrow>
   ('c, 'd, 'e, 'm, 'u, nat list, 't, 'k) host" where
  "hybrid_shard_host num_nodes num_devices rank h =
     h\<lparr>get_default_group := Inr [0..<num_nodes * num_devices],
       get_inter_node_pg := (\<lambda>_. Inr (inter_node_group num_nodes num_devices rank)),
       get_rank := (\<lambda>_. Inr rank),
       get_world_size := (\<lambda>pg. Inr (length pg)),
       rank_not_in_group := (\<lambda>r pg. Inr (r \<notin> set pg))\<rparr>"


section \<open>Concrete instances\<close>

text \<open>A small framework, a model and states on which the functions above are run.\<close>

definition demo_framework ::
  "(nat, string, nat list list, nat, nat list, nat, nat, nat, nat) framework" where
  "demo_framework =
     \<lparr>DynamoExport_trace = (\<lambda>fn args. Inr (length args)),
      FxFrontendUnpackKwargs_trace =
        (\<lambda>f args kwargs. Inr (length args + length kwargs, args @ map snd kwargs)),
      Decompose_run = (\<lambda>gm table args. Inr (gm + table)),
      ShapeInferenceWithFakeTensor_run = (\<lambda>gm args. Inr (gm + length args)),
      export_fx_to_onnxscript = (\<lambda>gm opts. Inr (2 * gm)),
      to_model_proto =
        (\<lambda>g opset. if opset < 0 then Inl ''unsupported opset'' else Inr (g + nat opset)),
      SerializeToString = (\<lambda>p. Inr [of_nat p]),
      tree_flatten = (\<lambda>out. (concat out, map length out)),
      ONNX_FRIENDLY_DECOMPOSITION_TABLE = 7\<rparr>"


definition demo_fn :: "(nat, string, nat list list) fn" where
  "demo_fn = Callable (\<lambda>args kwargs. Inr [[length args], [length kwargs]])"

definition demo_forward :: "(nat, string, nat list list) callable" where
  "demo_forward args kwargs = Inr [[length args, length kwargs], [], [7]]"

definition demo_module :: "(nat, string, nat list list) fn" where
  "demo_module = Module demo_forward"


definition initial_state ::
  "(nat, string, nat list list, nat, nat, nat, nat, nat) exporter_state" where
  "initial_state = \<lparr>calls = [], dispatch_enabled = True\<rparr>"

definition demo_final_state ::
  "(nat, string, nat list list, nat, nat, nat, nat, nat) exporter_state" where
  "demo_final_state =
     \<lparr>calls = [Trace_DynamoExport demo_fn [Some 3, None], Decompose 2 7 [Some 3, None],
        ShapeInferenceWithFakeTensor 9 [Some 3, None],
        Export_fx_to_onnxscript 11 (ExportOptions_update 17 7 True False),
        To_model_proto 22 17, Serialize_to_string 39], dispatch_enabled = True\<rparr>"

definition demo_host :: "(nat, nat, string, nat, nat, nat list, nat, string) host" where
  "demo_host =
     \<lparr>HYBRID_SHARD = ''HYBRID_SHARD'', RECURSIVE = ''RECURSIVE'', CUDA_BEFORE = ''CUDA_BEFORE'',
      cuda_current_device = Inr 0,
      get_default_group = Inr [0, 1],
      TransformerWithSharedParams_init = (\<lambda>pg init_mode cuda_mode kwargs. Inr 0),
      fsdp_modules = (\<lambda>m. Inr [0, 1]),
      get_sharding_strategy = (\<lambda>u. Inr ''HYBRID_SHARD''),
      get_inter_node_pg = (\<lambda>u. Inr [0]),
      get_rank = (\<lambda>pg. Inr 0),
      get_world_size = (\<lambda>pg. Inr (length pg)),
      rank_not_in_group = (\<lambda>r pg. Inr (r \<notin> set pg)),
      get_input = (\<lambda>m. ret 0),
      model_forward = (\<lambda>m t. ret t),
      get_loss = (\<lambda>m inp out. ret 0),
      backward = (\<lambda>t. ret ())\<rparr>"

text \<open>Reading the module global, to observe it inside a \<^verbatim>\<open>with\<close> block.\<close>

definition read_dtype :: "(('c, 'd) process_state, 'x, 'd global_var) prog" where
  "read_dtype s = (Inr (CURRENT_FULL_PRECISION_PARAM_DTYPE s), s)"

definition demo_process :: "(nat, nat) process_state" where
  "demo_process =
     \<lparr>all_reduce = Host_collective 0, reduce_scatter_base = Host_collective 1,
      CURRENT_FULL_PRECISION_PARAM_DTYPE = Unbound, checks = []\<rparr>"


section \<open>Properties of the exporter\<close>

subsection \<open>Unfolding the three functions\<close>

lemma bind_invoke:
  "bind (invoke c a) f s =
     (case a of Inl e \<Rightarrow> (Inl e, s\<lparr>calls := calls s @ [c]\<rparr>)
      | Inr v \<Rightarrow> f v (s\<lparr>calls := calls s @ [c]\<rparr>))"
  by (simp add: bind_def invoke_def split: sum.splits)

lemma bind_no_dispatch_invoke:
  "bind (no_dispatch (invoke c a)) f s =
     (case a of Inl e \<Rightarrow> (Inl e, s\<lparr>calls := calls s @ [c]\<rparr>)
      | Inr v \<Rightarrow> f v (s\<lparr>calls := calls s @ [c]\<rparr>))"
  by (simp add: bind_def no_dispatch_def try_finally_def invoke_def split: sum.splits)

lemma export_impl_unfold:
  "export_impl fw module args opset table binary debug s =
    (let opts = ExportOptions_update opset table binary debug;
         c1 = [Decompose module table args] in
     case Decompose_run fw module table args of
       Inl e \<Rightarrow> (Inl e, s\<lparr>calls := calls s @ c1\<rparr>)
     | Inr dm \<Rightarrow>
        (let c2 = c1 @ [ShapeInferenceWithFakeTensor dm args] in
         case ShapeInferenceWithFakeTensor_run fw dm args of
           Inl e \<Rightarrow> (Inl e, s\<lparr>calls := calls s @ c2\<rparr>)
         | Inr dm' \<Rightarrow>
            (let c3 = c2 @ [Export_fx_to_onnxscript dm' opts] in
             case export_fx_to_onnxscript fw dm' opts of
               Inl e \<Rightarrow> (Inl e, s\<lparr>calls := calls s @ c3\<rparr>)
             | Inr g \<Rightarrow>
                (let c4 = c3 @ [To_model_proto g opset] in
                 case to_model_proto fw g opset of
                   Inl e \<Rightarrow> (Inl e, s\<lparr>calls := calls s @ c4\<rparr>)
                 | Inr p \<Rightarrow>
                    if binary then
                      (case SerializeToString fw p of
                         Inl e \<Rightarrow> (Inl e, s\<lparr>calls := calls s @ c4 @ [Serialize_to_string p]\<rparr>)
                       | Inr b \<Rightarrow>
                          (Inr (Serialized b),
                           s\<lparr>calls := calls s @ c4 @ [Serialize_to_string p]\<rparr>))
                    else (Inr (ModelProto p), s\<lparr>calls := calls s @ c4\<rparr>)))))"
  by (simp add: export_impl_def bind_invoke bind_no_dispatch_invoke ExportOptions_update_def
        ret_def Let_def split: sum.splits)

lemma export_unfold:
  "export fw fn args binary opset debug s =
     (case DynamoExport_trace fw fn args of
        Inl e \<Rightarrow> (Inl e, s\<lparr>calls := calls s @ [Trace_DynamoExport fn args]\<rparr>)
      | Inr gm \<Rightarrow>
          export_impl fw gm args opset (ONNX_FRIENDLY_DECOMPOSITION_TABLE fw) binary debug
            (s\<lparr>calls := calls s @ [Trace_DynamoExport fn args]\<rparr>))"
  by (simp add: export_def bind_invoke)

lemma export_after_unfold:
  "export_after_normalizing_args_and_kwargs fw fn args binary opset debug kwargs s =
     (case FxFrontendUnpackKwargs_trace fw (wrapper fw fn) args kwargs of
        Inl e \<Rightarrow>
          (Inl e, s\<lparr>calls := calls s @ [Trace_UnpackKwargs (wrapper fw fn) args kwargs]\<rparr>)
      | Inr (gm, bound_args) \<Rightarrow>
          export_impl fw gm (filter (\<lambda>arg. arg \<noteq> None) bound_args) opset
            (ONNX_FRIENDLY_DECOMPOSITION_TABLE fw) binary debug
            (s\<lparr>calls := calls s @ [Trace_UnpackKwargs (wrapper fw fn) args kwargs]\<rparr>))"
  by (simp add: export_after_normalizing_args_and_kwargs_def bind_invoke Let_def
        split: sum.splits prod.splits)

lemma demo_table: "ONNX_FRIENDLY_DECOMPOSITION_TABLE demo_framework = 7"
  by (simp add: demo_framework_def)

lemma demo_export_run:
  "export demo_framework demo_fn [Some 3, None] True 17 False initial_state =
     (Inr (Serialized [39]), demo_final_state)"
  by (simp add: export_unfold export_impl_unfold demo_framework_def initial_state_def
        demo_final_state_def)

subsection \<open>The order of the passes\<close>

lemma export_impl_steps:
  "export_impl fw module args opset table binary debug s = (r, s') \<Longrightarrow>
     \<exists>new. calls s' = calls s @ new \<and> prefix (map step_of new) (tl all_steps)"
  by (auto simp: export_impl_unfold Let_def all_steps_def split: sum.splits if_splits)

lemma export_steps_prefix:
  assumes "export fw fn args binary opset debug s = (r, s')"
  shows "\<exists>new. calls s' = calls s @ new \<and> prefix (map step_of new) all_steps"
proof (cases "DynamoExport_trace fw fn args")
  case (Inl e)
  with assms have "calls s' = calls s @ [Trace_DynamoExport fn args]"
    by (auto simp: export_unfold)
  then show ?thesis by (simp add: all_steps_def)
next
  case (Inr gm)
  with assms have
    "export_impl fw gm args opset (ONNX_FRIENDLY_DECOMPOSITION_TABLE fw) binary debug
       (s\<lparr>calls := calls s @ [Trace_DynamoExport fn args]\<rparr>) = (r, s')"
    by (simp add: export_unfold)
  from export_impl_steps [OF this] obtain new where
    "calls s' = calls s @ Trace_DynamoExport fn args # new"
    "prefix (map step_of new) (tl all_steps)"
    by auto
  then show ?thesis by (auto simp: all_steps_def)
qed

lemma export_steps_success:
  "export fw fn args binary opset debug s = (Inr r, s') \<Longrightarrow>
     \<exists>gm dm dm' g p.
       DynamoExport_trace fw fn args = Inr gm \<and>
       Decompose_run fw gm (ONNX_FRIENDLY_DECOMPOSITION_TABLE fw) args = Inr dm \<and>
       ShapeInferenceWithFakeTensor_run fw dm args = Inr dm' \<and>
       export_fx_to_onnxscript fw dm'
         (ExportOptions_update opset (ONNX_FRIENDLY_DECOMPOSITION_TABLE fw) binary debug) =
         Inr g \<and>
       to_model_proto fw g opset = Inr p \<and>
       calls s' = calls s @
         [Trace_DynamoExport fn args,
          Decompose gm (ONNX_FRIENDLY_DECOMPOSITION_TABLE fw) args,
          ShapeInferenceWithFakeTensor dm args,
          Export_fx_to_onnxscript dm'
            (ExportOptions_update opset (ONNX_FRIENDLY_DECOMPOSITION_TABLE fw) binary debug),
          To_model_proto g opset] @ (if binary then [Serialize_to_string p] else [])"
  by (auto simp: export_unfold export_impl_unfold Let_def split: sum.splits if_splits)

text \<open>
  Claim C2. Every call of \<^verbatim>\<open>export\<close> makes its framework calls in the order trace,
  Decompose, ShapeInferenceWithFakeTensor, export_fx_to_onnxscript, to_model_proto, and
  stops at the first one that raises. A call that returns has made all five: the traced
  graph module goes to Decompose with the decomposition table and the arguments, the
  decomposed module to shape inference with the arguments, its result to
  export_fx_to_onnxscript, and the onnxscript graph is converted at the requested opset
  version. No other pass is called; the one call that can follow is the serialisation of the
  finished model when the binary format is asked for, which is the encoding of the result.
\<close>

theorem export_steps_in_order:
  assumes "export fw fn args binary opset debug s = (r, s')"
  shows "(\<exists>new. calls s' = calls s @ new \<and> prefix (map step_of new) all_steps) \<and>
     (\<forall>v. r = Inr v \<longrightarrow>
       (\<exists>gm dm dm' g p.
         DynamoExport_trace fw fn args = Inr gm \<and>
         Decompose_run fw gm (ONNX_FRIENDLY_DECOMPOSITION_TABLE fw) args = Inr dm \<and>
         ShapeInferenceWithFakeTensor_run fw dm args = Inr dm' \<and>
         export_fx_to_onnxscript fw dm'
           (ExportOptions_update opset (ONNX_FRIENDLY_DECOMPOSITION_TABLE fw) binary debug) =
           Inr g \<and>
         to_model_proto fw g opset = Inr p \<and>
         calls s' = calls s @
           [Trace_DynamoExport fn args,
            Decompose gm (ONNX_FRIENDLY_DECOMPOSITION_TABLE fw) args,
            ShapeInferenceWithFakeTensor dm args,
            Export_fx_to_onnxscript dm'
              (ExportOptions_update opset (ONNX_FRIENDLY_DECOMPOSITION_TABLE fw) binary debug),
            To_model_proto g opset] @ (if binary then [Serialize_to_string p] else [])))"
  using export_steps_prefix [OF assms]
    export_steps_success [of fw fn args binary opset debug s _ s'] assms
  by blast

theorem export_steps_in_order_witness:
  "export demo_framework demo_fn [Some 3, None] True 17 False initial_state =
    (Inr (Serialized [39]), demo_final_state) \<and>
   (\<exists>new. calls demo_final_state = calls initial_state @ new \<and>
      prefix (map step_of new) all_steps) \<and>
   (\<exists>gm dm dm' g p.
      DynamoExport_trace demo_framework demo_fn [Some 3, None] = Inr gm \<and>
      Decompose_run demo_framework gm (ONNX_FRIENDLY_DECOMPOSITION_TABLE demo_framework)
        [Some 3, None] = Inr dm \<and>
      ShapeInferenceWithFakeTensor_run demo_framework dm [Some 3, None] = Inr dm' \<and>
      export_fx_to_onnxscript demo_framework dm'
        (ExportOptions_update 17 (ONNX_FRIENDLY_DECOMPOSITION_TABLE demo_framework) True False) =
        Inr g \<and>
      to_model_proto demo_framework g 17 = Inr p \<and>
      calls demo_final_state = calls initial_state @
        [Trace_DynamoExport demo_fn [Some 3, None],
         Decompose gm (ONNX_FRIENDLY_DECOMPOSITION_TABLE demo_framework) [Some 3, None],
         ShapeInferenceWithFakeTensor dm [Some 3, None],
         Export_fx_to_onnxscript dm'
           (ExportOptions_update 17 (ONNX_FRIENDLY_DECOMPOSITION_TABLE demo_framework) True
              False),
         To_model_proto g 17] @ (if True then [Serialize_to_string p] else []))"
  using export_steps_in_order [OF demo_export_run] demo_export_run by blast

subsection \<open>The shape of the result\<close>

lemma export_impl_shape:
  "export_impl fw module args opset table binary debug s = (Inr r, s') \<Longrightarrow>
     \<exists>g p. to_model_proto fw g opset = Inr p \<and>
       (if binary then \<exists>b. SerializeToString fw p = Inr b \<and> r = Serialized b
        else r = ModelProto p)"
  by (auto simp: export_impl_unfold Let_def split: sum.splits if_splits)

text \<open>
  Claim C3. A call of \<^verbatim>\<open>export\<close> or of \<^verbatim>\<open>export_after_normalizing_args_and_kwargs\<close>
  that returns, returns the bytes that \<^verbatim>\<open>SerializeToString\<close> gives for the converted
  model when \<^verbatim>\<open>use_binary_format\<close> is true, and the converted model itself when it is
  false.
\<close>

theorem exported_value_shape:
  "(export fw fn args binary opset debug s = (Inr r, s') \<longrightarrow>
      (\<exists>g p. to_model_proto fw g opset = Inr p \<and>
         (if binary then \<exists>b. SerializeToString fw p = Inr b \<and> r = Serialized b
          else r = ModelProto p))) \<and>
   (export_after_normalizing_args_and_kwargs fw fn args binary opset debug kwargs t =
      (Inr r', t') \<longrightarrow>
      (\<exists>g p. to_model_proto fw g opset = Inr p \<and>
         (if binary then \<exists>b. SerializeToString fw p = Inr b \<and> r' = Serialized b
          else r' = ModelProto p)))"
proof (intro conjI impI)
  assume "export fw fn args binary opset debug s = (Inr r, s')"
  then obtain gm where
    "export_impl fw gm args opset (ONNX_FRIENDLY_DECOMPOSITION_TABLE fw) binary debug
       (s\<lparr>calls := calls s @ [Trace_DynamoExport fn args]\<rparr>) = (Inr r, s')"
    by (auto simp: export_unfold split: sum.splits)
  then show "\<exists>g p. to_model_proto fw g opset = Inr p \<and>
         (if binary then \<exists>b. SerializeToString fw p = Inr b \<and> r = Serialized b
          else r = ModelProto p)"
    by (rule export_impl_shape)
next
  assume "export_after_normalizing_args_and_kwargs fw fn args binary opset debug kwargs t =
    (Inr r', t')"
  then obtain gm bound_args where
    "export_impl fw gm (filter (\<lambda>arg. arg \<noteq> None) bound_args) opset
       (ONNX_FRIENDLY_DECOMPOSITION_TABLE fw) binary debug
       (t\<lparr>calls := calls t @ [Trace_UnpackKwargs (wrapper fw fn) args kwargs]\<rparr>) = (Inr r', t')"
    by (auto simp: export_after_unfold split: sum.splits)
  then show "\<exists>g p. to_model_proto fw g opset = Inr p \<and>
         (if binary then \<exists>b. SerializeToString fw p = Inr b \<and> r' = Serialized b
          else r' = ModelProto p)"
    by (rule export_impl_shape)
qed

theorem exported_value_shape_witness:
  "export demo_framework demo_fn [Some 3, None] True 17 False initial_state =
     (Inr (Serialized [39]), demo_final_state) \<and>
   (\<exists>g p. to_model_proto demo_framework g 17 = Inr p \<and>
      (\<exists>b. SerializeToString demo_framework p = Inr b \<and> Serialized [39] = Serialized b)) \<and>
   fst (export_after_normalizing_args_and_kwargs demo_framework demo_fn [Some 3, None] False 17
          False [(''k'', Some 5)] initial_state) = Inr (ModelProto 41) \<and>
   (\<exists>g. to_model_proto demo_framework g 17 = Inr 41)"
proof -
  have after_fst: "fst (export_after_normalizing_args_and_kwargs demo_framework demo_fn
      [Some 3, None] False 17 False [(''k'', Some 5)] initial_state) = Inr (ModelProto 41)"
    by (simp add: export_after_unfold export_impl_unfold demo_framework_def initial_state_def)
  then have after: "export_after_normalizing_args_and_kwargs demo_framework demo_fn
      [Some 3, None] False 17 False [(''k'', Some 5)] initial_state =
    (Inr (ModelProto 41),
     snd (export_after_normalizing_args_and_kwargs demo_framework demo_fn [Some 3, None]
      False 17 False [(''k'', Some 5)] initial_state))"
    by (simp add: prod_eq_iff)
  from exported_value_shape
         [of demo_framework demo_fn "[Some 3, None]" True 17 False initial_state
             "Serialized [39]" demo_final_state]
       demo_export_run
  have binary: "\<exists>g p. to_model_proto demo_framework g 17 = Inr p \<and>
      (\<exists>b. SerializeToString demo_framework p = Inr b \<and> Serialized [39] = Serialized b)"
    by simp
  from exported_value_shape
         [of demo_framework demo_fn "[Some 3, None]" False 17 False _ _ _
             "[(''k'', Some 5)]" initial_state "ModelProto 41"]
       after
  have structured: "\<exists>g. to_model_proto demo_framework g 17 = Inr 41"
    by simp
  from demo_export_run binary after_fst structured show ?thesis by blast
qed

subsection \<open>Exceptions\<close>










subsection \<open>The wrapper and the bound arguments\<close>

text \<open>
  Claim C10. The function that \<^verbatim>\<open>export_after_normalizing_args_and_kwargs\<close> traces is
  the wrapper. For a module the wrapper calls its \<^verbatim>\<open>forward\<close>, for any other callable
  the callable itself, on the arguments and keyword arguments it is given: where that call
  returns \<open>out\<close>, the wrapper returns the list of leaves of \<^verbatim>\<open>tree_flatten\<close> of
  \<open>out\<close> and drops the tree structure; where it raises, so does the wrapper. When the
  tracing returns a graph module and bound arguments, \<^verbatim>\<open>_export\<close> runs on the graph
  module and on the bound arguments without those that are \<^verbatim>\<open>None\<close>, the others kept,
  so the call after the tracing is Decompose on these.
\<close>

theorem wrapper_flattens_and_None_is_dropped:
  "(fwd a k = Inr out \<longrightarrow>
      wrapper fw (Module fwd) a k = Inr (fst (tree_flatten fw out))) \<and>
   (fwd a k = Inl e \<longrightarrow> wrapper fw (Module fwd) a k = Inl e) \<and>
   (f a k = Inr out' \<longrightarrow>
      wrapper fw (Callable f) a k = Inr (fst (tree_flatten fw out'))) \<and>
   (f a k = Inl e' \<longrightarrow> wrapper fw (Callable f) a k = Inl e') \<and>
   (FxFrontendUnpackKwargs_trace fw (wrapper fw fn) args kwargs = Inr (gm, bound_args) \<longrightarrow>
      (let passed = filter (\<lambda>arg. arg \<noteq> None) bound_args;
           traced = s\<lparr>calls := calls s @ [Trace_UnpackKwargs (wrapper fw fn) args kwargs]\<rparr>
       in None \<notin> set passed \<and>
          (\<forall>v. Some v \<in> set bound_args \<longrightarrow> Some v \<in> set passed) \<and>
          export_after_normalizing_args_and_kwargs fw fn args binary opset debug kwargs s =
            export_impl fw gm passed opset (ONNX_FRIENDLY_DECOMPOSITION_TABLE fw) binary debug
              traced \<and>
          take 2 (drop (length (calls s))
            (calls (snd (export_after_normalizing_args_and_kwargs fw fn args binary opset debug
                           kwargs s)))) =
            [Trace_UnpackKwargs (wrapper fw fn) args kwargs,
             Decompose gm (ONNX_FRIENDLY_DECOMPOSITION_TABLE fw) passed]))"
  by (auto simp: wrapper_def fn_call_def export_after_unfold export_impl_unfold Let_def
           split: sum.splits prod.splits if_splits)

theorem wrapper_flattens_and_None_is_dropped_witness:
  "demo_forward [Some 3, None] [(''k'', Some 5)] = Inr [[2, 1], [], [7]] \<and>
   wrapper demo_framework (Module demo_forward) [Some 3, None] [(''k'', Some 5)] =
     Inr [2, 1, 7] \<and>
   wrapper demo_framework (Callable (\<lambda>args kwargs. Inr [[length args], [length kwargs]]))
     [Some 3] [] = Inr [1, 0] \<and>
   FxFrontendUnpackKwargs_trace demo_framework (wrapper demo_framework demo_module)
     [Some 3, None] [(''k'', Some 5)] = Inr (3, [Some 3, None, Some 5]) \<and>
   export_after_normalizing_args_and_kwargs demo_framework demo_module [Some 3, None] True 17
     False [(''k'', Some 5)] initial_state =
     export_impl demo_framework 3 [Some 3, Some 5] 17 7 True False
       (initial_state\<lparr>calls := calls initial_state @
          [Trace_UnpackKwargs (wrapper demo_framework demo_module) [Some 3, None]
             [(''k'', Some 5)]]\<rparr>)"
proof -
  have call: "demo_forward [Some 3, None] [(''k'', Some 5)] = Inr [[2, 1], [], [7]]"
    by (simp add: demo_forward_def)
  have plain: "(\<lambda>args kwargs. Inr [[length args], [length kwargs]]) [Some (3::nat)] [] =
      (Inr [[1], [0]] :: string + nat list list)"
    by simp
  have trace: "FxFrontendUnpackKwargs_trace demo_framework (wrapper demo_framework demo_module)
     [Some 3, None] [(''k'', Some 5)] = Inr (3, [Some 3, None, Some 5])"
    by (simp add: demo_framework_def)
  have flat: "fst (tree_flatten demo_framework [[2, 1], [], [7]]) = [2, 1, 7]"
    "fst (tree_flatten demo_framework [[1], [0]]) = [1, 0]"
    by (simp_all add: demo_framework_def)
  from wrapper_flattens_and_None_is_dropped
         [where fwd = demo_forward and a = "[Some 3, None]" and k = "[(''k'', Some 5)]"
            and out = "[[2, 1], [], [7]]" and fw = demo_framework and fn = demo_module
            and args = "[Some 3, None]" and kwargs = "[(''k'', Some 5)]" and gm = 3
            and bound_args = "[Some 3, None, Some 5]" and s = initial_state
            and binary = True and opset = 17 and debug = False]
       call trace flat
  have module: "wrapper demo_framework (Module demo_forward) [Some 3, None] [(''k'', Some 5)] =
     Inr [2, 1, 7]"
    and pipeline: "export_after_normalizing_args_and_kwargs demo_framework demo_module
      [Some 3, None] True 17 False [(''k'', Some 5)] initial_state =
     export_impl demo_framework 3 [Some 3, Some 5] 17 7 True False
       (initial_state\<lparr>calls := calls initial_state @
          [Trace_UnpackKwargs (wrapper demo_framework demo_module) [Some 3, None]
             [(''k'', Some 5)]]\<rparr>)"
    by (simp_all add: Let_def demo_table)
  from wrapper_flattens_and_None_is_dropped
         [where f = "\<lambda>args kwargs. Inr [[length args], [length kwargs]]" and a = "[Some 3]"
            and k = "[]" and out' = "[[1], [0]]" and fw = demo_framework]
       plain flat
  have callable: "wrapper demo_framework
     (Callable (\<lambda>args kwargs. Inr [[length args], [length kwargs]])) [Some 3] [] = Inr [1, 0]"
    by simp
  from call module callable trace pipeline show ?thesis by blast
qed

subsection \<open>What a call of an entry point may contain\<close>

lemma bind_keywords_Inr_iff:
  "bind_keywords sg kvs b = Inr b' \<longleftrightarrow>
     distinct (map fst kvs) \<and>
     (\<forall>k \<in> fst ` set kvs.
        if nameable sg k then k \<notin> fst ` set (named b)
        else var_keyword sg \<and> k \<notin> fst ` set (star_kwargs b)) \<and>
     b' = b\<lparr>named := named b @ filter (\<lambda>kv. nameable sg (fst kv)) kvs,
            star_kwargs := star_kwargs b @ filter (\<lambda>kv. \<not> nameable sg (fst kv)) kvs\<rparr>"
proof (induction kvs arbitrary: b)
  case Nil
  then show ?case by auto
next
  case (Cons kv kvs)
  obtain k v where kv: "kv = (k, v)" by (cases kv)
  show ?case
  proof (cases "nameable sg k")
    case True
    then show ?thesis
      using Cons.IH [of "b\<lparr>named := named b @ [(k, v)]\<rparr>"]
      by (auto simp: kv nameable_def image_Un)
  next
    case False
    then show ?thesis
      using Cons.IH [of "b\<lparr>star_kwargs := star_kwargs b @ [(k, v)]\<rparr>"]
      by (auto simp: kv nameable_def image_Un)
  qed
qed


lemma fst_in_keys: "(k, v) \<in> set kvs \<Longrightarrow> k \<in> fst ` set kvs"
  by force

lemma accepts_iff:
  assumes "positional_params sg = [p]" "var_positional sg"
  shows "accepts sg c \<longleftrightarrow>
     distinct (map fst (keyword_args c)) \<and>
     (\<forall>k \<in> fst ` set (keyword_args c).
        if nameable sg k then k = p \<longrightarrow> positional_args c = [] else var_keyword sg) \<and>
     (positional_args c = [] \<longrightarrow> p \<in> fst ` set (keyword_args c))"
proof -
  define b0 :: "'a bound_arguments" where
    "b0 = \<lparr>named = zip [p] (positional_args c), star_args = drop 1 (positional_args c),
           star_kwargs = []\<rparr>"
  have names: "fst ` set (named b0) = (if positional_args c = [] then {} else {p})"
    by (cases "positional_args c") (auto simp: b0_def)
  have p: "nameable sg p" by (simp add: nameable_def assms)
  have "accepts sg c \<longleftrightarrow>
     (\<exists>b. bind_keywords sg (keyword_args c) b0 = Inr b \<and> p \<in> fst ` set (named b))"
    using assms by (auto simp: accepts_def bind_call_def b0_def Let_def split: sum.splits list.splits)
  also have "\<dots> \<longleftrightarrow>
     distinct (map fst (keyword_args c)) \<and>
     (\<forall>k \<in> fst ` set (keyword_args c).
        if nameable sg k then k \<notin> fst ` set (named b0) else var_keyword sg) \<and>
     (p \<in> fst ` set (named b0) \<or> p \<in> fst ` set (keyword_args c))"
    using p by (auto simp: bind_keywords_Inr_iff b0_def image_Un image_iff)
  also have "\<dots> \<longleftrightarrow>
     distinct (map fst (keyword_args c)) \<and>
     (\<forall>k \<in> fst ` set (keyword_args c).
        if nameable sg k then k = p \<longrightarrow> positional_args c = [] else var_keyword sg) \<and>
     (positional_args c = [] \<longrightarrow> p \<in> fst ` set (keyword_args c))"
    unfolding names by (auto split: if_splits dest: fst_in_keys)
  finally show ?thesis .
qed

lemma export_accepts_iff:
  "accepts export_signature c \<longleftrightarrow>
     distinct (map fst (keyword_args c)) \<and>
     (positional_args c = [] \<longleftrightarrow> ''fn'' \<in> fst ` set (keyword_args c)) \<and>
     fst ` set (keyword_args c) \<subseteq> insert ''fn'' (set option_names)"
  apply (subst accepts_iff [where p = "''fn''"])
    apply (simp_all add: export_signature_def nameable_def option_names_def)
  apply (auto split: if_splits dest: fst_in_keys)
  done

lemma export_after_accepts_iff:
  "accepts export_after_normalizing_args_and_kwargs_signature c \<longleftrightarrow>
     distinct (map fst (keyword_args c)) \<and>
     (positional_args c = [] \<longleftrightarrow> ''fn'' \<in> fst ` set (keyword_args c))"
  apply (subst accepts_iff [where p = "''fn''"])
    apply (simp_all add: export_after_normalizing_args_and_kwargs_signature_def nameable_def)
  apply (auto split: if_splits dest: fst_in_keys)
   apply force+
  done

lemma bind_call_stars:
  assumes "bind_call sg c = Inr b"
  shows "star_args b = drop (length (positional_params sg)) (positional_args c) \<and>
         star_kwargs b = filter (\<lambda>kv. \<not> nameable sg (fst kv)) (keyword_args c)"
  using assms
  by (auto simp: bind_call_def Let_def bind_keywords_Inr_iff split: if_splits sum.splits list.splits)

text \<open>
  Claim C4, as stated, would have \<^verbatim>\<open>export\<close> take keyword arguments for the model. It
  does not: a call with two positional arguments and the keyword \<^verbatim>\<open>attention_mask\<close> is
  rejected with \<^verbatim>\<open>TypeError\<close>, since the signature has no \<^verbatim>\<open>**kwargs\<close>.
\<close>

theorem export_rejects_model_keyword:
  "bind_call export_signature
     \<lparr>positional_args = [0::nat, 1], keyword_args = [(''attention_mask'', 2)]\<rparr> =
   Inl (Unexpected_keyword ''attention_mask'') \<and>
   \<not> accepts export_signature
     \<lparr>positional_args = [0::nat, 1], keyword_args = [(''attention_mask'', 2)]\<rparr>"
  by (simp add: accepts_def bind_call_def export_signature_def)


text \<open>
  Claim C4, amended. \<^verbatim>\<open>export_after_normalizing_args_and_kwargs\<close> accepts every call
  that gives \<^verbatim>\<open>fn\<close> once (first positional argument or keyword) and no keyword twice:
  the positional arguments after \<^verbatim>\<open>fn\<close> are the example arguments, the three options
  are taken by name, and every other keyword is a keyword argument for the model.
  \<^verbatim>\<open>export\<close> accepts such a call only when its keywords are among \<^verbatim>\<open>fn\<close> and the
  three options; it takes no keyword arguments for the model.
\<close>

theorem entry_points_accept:
  "(accepts export_after_normalizing_args_and_kwargs_signature c \<longleftrightarrow>
      distinct (map fst (keyword_args c)) \<and>
      (positional_args c = [] \<longleftrightarrow> ''fn'' \<in> fst ` set (keyword_args c))) \<and>
   (accepts export_signature c \<longleftrightarrow>
      distinct (map fst (keyword_args c)) \<and>
      (positional_args c = [] \<longleftrightarrow> ''fn'' \<in> fst ` set (keyword_args c)) \<and>
      fst ` set (keyword_args c) \<subseteq> insert ''fn'' (set option_names)) \<and>
   (\<forall>b. bind_call export_after_normalizing_args_and_kwargs_signature c = Inr b \<longrightarrow>
      star_args b = drop 1 (positional_args c) \<and>
      star_kwargs b =
        filter (\<lambda>kv. fst kv \<notin> insert ''fn'' (set option_names)) (keyword_args c)) \<and>
   (\<forall>b. bind_call export_signature c = Inr b \<longrightarrow>
      star_args b = drop 1 (positional_args c) \<and> star_kwargs b = [])"
proof (intro conjI allI impI)
  show "accepts export_after_normalizing_args_and_kwargs_signature c \<longleftrightarrow>
      distinct (map fst (keyword_args c)) \<and>
      (positional_args c = [] \<longleftrightarrow> ''fn'' \<in> fst ` set (keyword_args c))"
    by (rule export_after_accepts_iff)
  show "accepts export_signature c \<longleftrightarrow>
      distinct (map fst (keyword_args c)) \<and>
      (positional_args c = [] \<longleftrightarrow> ''fn'' \<in> fst ` set (keyword_args c)) \<and>
      fst ` set (keyword_args c) \<subseteq> insert ''fn'' (set option_names)"
    by (rule export_accepts_iff)
next
  fix b assume "bind_call export_after_normalizing_args_and_kwargs_signature c = Inr b"
  from bind_call_stars [OF this]
  show "star_args b = drop 1 (positional_args c)"
    and "star_kwargs b =
        filter (\<lambda>kv. fst kv \<notin> insert ''fn'' (set option_names)) (keyword_args c)"
    by (simp_all add: export_after_normalizing_args_and_kwargs_signature_def nameable_def
          option_names_def)
next
  fix b assume b: "bind_call export_signature c = Inr b"
  then have "accepts export_signature c" by (simp add: accepts_def)
  then have "fst ` set (keyword_args c) \<subseteq> insert ''fn'' (set option_names)"
    by (simp add: export_accepts_iff)
  then have "\<forall>kv \<in> set (keyword_args c). nameable export_signature (fst kv)"
    by (auto simp: nameable_def export_signature_def option_names_def)
  with bind_call_stars [OF b]
  show "star_args b = drop 1 (positional_args c)" and "star_kwargs b = []"
    by (simp_all add: export_signature_def)
qed

theorem entry_points_accept_witness:
  "accepts export_after_normalizing_args_and_kwargs_signature
     \<lparr>positional_args = [0::nat, 1],
      keyword_args = [(''attention_mask'', 2), (''opset_version'', 17)]\<rparr> \<and>
   bind_call export_after_normalizing_args_and_kwargs_signature
     \<lparr>positional_args = [0::nat, 1],
      keyword_args = [(''attention_mask'', 2), (''opset_version'', 17)]\<rparr> =
   Inr \<lparr>named = [(''fn'', 0), (''opset_version'', 17)], star_args = [1],
        star_kwargs = [(''attention_mask'', 2)]\<rparr> \<and>
   accepts export_signature
     \<lparr>positional_args = [0::nat, 1], keyword_args = [(''opset_version'', 17)]\<rparr>"
  using entry_points_accept
          [of "\<lparr>positional_args = [0::nat, 1],
                keyword_args = [(''attention_mask'', 2), (''opset_version'', 17)]\<rparr>"]
        entry_points_accept
          [of "\<lparr>positional_args = [0::nat, 1], keyword_args = [(''opset_version'', 17)]\<rparr>"]
  by (simp add: bind_call_def export_after_normalizing_args_and_kwargs_signature_def
        option_names_def)




section \<open>Properties of the test file\<close>

subsection \<open>The context managers\<close>

text \<open>
  Claim C6. \<^verbatim>\<open>patch_allreduce\<close> runs the body in the state in which
  \<^verbatim>\<open>dist.all_reduce\<close> is the replacement, and after the block \<^verbatim>\<open>dist.all_reduce\<close> is
  the function that was bound on entry, whatever the body did and whether it returned or
  raised; the outcome of the body, an exception included, is the outcome of the block.
  \<^verbatim>\<open>patch_reduce_scatter\<close> does the same for \<^verbatim>\<open>dist._reduce_scatter_base\<close>.
\<close>

theorem patches_install_and_restore:
  "patch_allreduce new_allreduce body s =
     (fst (body (s\<lparr>all_reduce := new_allreduce\<rparr>)),
      (snd (body (s\<lparr>all_reduce := new_allreduce\<rparr>)))\<lparr>all_reduce := all_reduce s\<rparr>) \<and>
   all_reduce (s\<lparr>all_reduce := new_allreduce\<rparr>) = new_allreduce \<and>
   all_reduce (snd (patch_allreduce new_allreduce body s)) = all_reduce s \<and>
   patch_reduce_scatter new_reduce_scatter dtype body s =
     (fst (body (s\<lparr>reduce_scatter_base := new_reduce_scatter,
                    CURRENT_FULL_PRECISION_PARAM_DTYPE := Bound dtype\<rparr>)),
      (snd (body (s\<lparr>reduce_scatter_base := new_reduce_scatter,
                    CURRENT_FULL_PRECISION_PARAM_DTYPE := Bound dtype\<rparr>)))
        \<lparr>reduce_scatter_base := reduce_scatter_base s,
         CURRENT_FULL_PRECISION_PARAM_DTYPE := Bound None\<rparr>) \<and>
   reduce_scatter_base (s\<lparr>reduce_scatter_base := new_reduce_scatter,
                    CURRENT_FULL_PRECISION_PARAM_DTYPE := Bound dtype\<rparr>) = new_reduce_scatter \<and>
   reduce_scatter_base (snd (patch_reduce_scatter new_reduce_scatter dtype body s)) =
     reduce_scatter_base s"
  by (simp add: patch_allreduce_def patch_reduce_scatter_def try_finally_def Let_def
        split: prod.splits)

text \<open>
  Claim C9. After a \<^verbatim>\<open>patch_reduce_scatter\<close> block the module global
  \<^verbatim>\<open>_CURRENT_FULL_PRECISION_PARAM_DTYPE\<close> is \<^verbatim>\<open>None\<close>, whatever it was on entry. So in
  a nested use the code of the outer block that follows the inner block runs with the
  global at \<^verbatim>\<open>None\<close>, not at the outer dtype that had been set on entry of the outer
  block.
\<close>

theorem dtype_global_is_None_after_exit:
  "CURRENT_FULL_PRECISION_PARAM_DTYPE
     (snd (patch_reduce_scatter new_reduce_scatter dtype body s)) = Bound None \<and>
   (let entered = s\<lparr>reduce_scatter_base := outer_rs,
                     CURRENT_FULL_PRECISION_PARAM_DTYPE := Bound outer_dtype\<rparr>;
        t = snd (patch_reduce_scatter inner_rs inner_dtype inner entered)
    in CURRENT_FULL_PRECISION_PARAM_DTYPE entered = Bound outer_dtype \<and>
       CURRENT_FULL_PRECISION_PARAM_DTYPE t = Bound None \<and>
       (\<forall>v. fst (patch_reduce_scatter inner_rs inner_dtype inner entered) = Inr v \<longrightarrow>
          fst (patch_reduce_scatter outer_rs outer_dtype
                 (bind (patch_reduce_scatter inner_rs inner_dtype inner) rest) s) =
          fst (rest v t)))"
  by (auto simp: patch_reduce_scatter_def try_finally_def Let_def bind_def
        split: prod.splits sum.splits)

theorem dtype_global_is_None_after_exit_witness:
  "fst (patch_reduce_scatter (Host_collective 2) (Some 16) (ret ())
         (demo_process\<lparr>reduce_scatter_base := Host_collective 3,
            CURRENT_FULL_PRECISION_PARAM_DTYPE := Bound (Some 32)\<rparr>)) =
     (Inr () :: string + unit) \<and>
   fst (patch_reduce_scatter (Host_collective 3) (Some 32)
          (bind (patch_reduce_scatter (Host_collective 2) (Some 16) (ret ()))
             (\<lambda>_. read_dtype)) demo_process) =
     (Inr (Bound None) :: string + nat global_var)"
  using dtype_global_is_None_after_exit
          [where new_reduce_scatter = "Host_collective 2" and dtype = "Some 16"
             and body = "ret ()"
             and s = "demo_process\<lparr>reduce_scatter_base := Host_collective 3,
                        CURRENT_FULL_PRECISION_PARAM_DTYPE := Bound (Some 32)\<rparr>"]
        dtype_global_is_None_after_exit
          [where s = demo_process and outer_rs = "Host_collective 3" and outer_dtype = "Some 32"
             and inner_rs = "Host_collective 2" and inner_dtype = "Some 16"
             and inner = "ret ()" and rest = "\<lambda>_. read_dtype"]
  by (simp add: patch_reduce_scatter_def try_finally_def Let_def ret_def read_dtype_def bind_def)

subsection \<open>The test case\<close>

lemma bound_names:
  "global_bound s ''functools''" "global_bound s ''transformer_auto_wrap_policy''"
  "global_bound s ''TransformerEncoderLayer''" "global_bound s ''TransformerDecoderLayer''"
  "global_bound s ''torch''" "global_bound s ''ShardingStrategy''"
  "global_bound s ''TransformerWithSharedParams''" "global_bound s ''dist''"
  "global_bound s ''FSDPInitMode''" "global_bound s ''CUDAInitMode''"
  "global_bound s ''_rank_not_in_group''" "global_bound s ''patch_allreduce''"
  "global_bound s ''FSDP''"
  by (simp_all add: global_bound_def static_globals_def module_imports_def
        module_attributes_def module_definitions_def)

lemma unbound_name:
  "\<not> global_bound s ''FullyShardedDataParallel''"
  "''FullyShardedDataParallel'' \<notin> set python_builtins"
  by (simp_all add: global_bound_def static_globals_def module_imports_def
        module_attributes_def module_definitions_def python_builtins_def)


lemma load_global_bound: "global_bound s name \<Longrightarrow> load_global name s = (Inr (), s)"
  by (simp add: load_global_def)

lemma load_FullyShardedDataParallel:
  "load_global ''FullyShardedDataParallel'' s = (Inl (NameError ''FullyShardedDataParallel''), s)"
  by (simp add: load_global_def unbound_name)

lemma test_unfold:
  "test_fsdp_hybrid_shard_basic_setup h s =
     (case cuda_current_device h of
        Inl e \<Rightarrow> (Inl (Raised e), s)
      | Inr device \<Rightarrow>
         (case get_default_group h of
            Inl e \<Rightarrow> (Inl (Raised e), s)
          | Inr pg \<Rightarrow>
             (case TransformerWithSharedParams_init h pg (RECURSIVE h) (CUDA_BEFORE h)
                     \<lparr>auto_wrap_policy = Transformer_auto_wrap_policy
                         [''TransformerEncoderLayer'', ''TransformerDecoderLayer''],
                      device_id = device, sharding_strategy = HYBRID_SHARD h\<rparr> of
                Inl e \<Rightarrow> (Inl (Raised e), s)
              | Inr fsdp_model \<Rightarrow> (Inl (NameError ''FullyShardedDataParallel''), s))))"
  by (simp add: test_fsdp_hybrid_shard_basic_setup_def bind_def ret_def load_global_bound bound_names
        load_FullyShardedDataParallel host_call_def process_group_def Let_def
        split: sum.splits)

text \<open>
  Claim C8. The module binds the class under the name \<^verbatim>\<open>FSDP\<close>; the name
  \<^verbatim>\<open>FullyShardedDataParallel\<close> is neither a global of the module nor a builtin. Every run
  of the test case ends with an exception, before any assertion and with the process state
  as it was; when the three host calls before line 108 (the current device, the default
  process group, the construction of the wrapped model) return, as they do on a machine
  that meets the precondition of the test, the exception is
  \<^verbatim>\<open>NameError\<close> for \<^verbatim>\<open>FullyShardedDataParallel\<close>.
\<close>

theorem test_raises_NameError:
  assumes "test_fsdp_hybrid_shard_basic_setup h s = (r, s')"
  shows "s' = s \<and> checks s' = checks s \<and>
    (r = Inl (NameError ''FullyShardedDataParallel'') \<or> (\<exists>e. r = Inl (Raised e))) \<and>
    (\<forall>device pg fsdp_model.
       cuda_current_device h = Inr device \<longrightarrow>
       get_default_group h = Inr pg \<longrightarrow>
       TransformerWithSharedParams_init h pg (RECURSIVE h) (CUDA_BEFORE h)
         \<lparr>auto_wrap_policy = Transformer_auto_wrap_policy
             [''TransformerEncoderLayer'', ''TransformerDecoderLayer''],
          device_id = device, sharding_strategy = HYBRID_SHARD h\<rparr> = Inr fsdp_model \<longrightarrow>
       r = Inl (NameError ''FullyShardedDataParallel'')) \<and>
    ''FSDP'' \<in> set static_globals \<and>
    ''FullyShardedDataParallel'' \<notin> set static_globals \<union> set python_builtins"
proof -
  have "''FSDP'' \<in> set static_globals"
    by (simp add: static_globals_def module_imports_def module_attributes_def
          module_definitions_def)
  moreover have "''FullyShardedDataParallel'' \<notin> set static_globals \<union> set python_builtins"
    by (simp add: static_globals_def module_imports_def module_attributes_def
          module_definitions_def python_builtins_def)
  ultimately show ?thesis
    using assms by (auto simp: test_unfold split: sum.splits)
qed

theorem test_raises_NameError_witness:
  "test_fsdp_hybrid_shard_basic_setup demo_host demo_process =
     (Inl (NameError ''FullyShardedDataParallel''), demo_process) \<and>
   cuda_current_device demo_host = Inr 0 \<and>
   get_default_group demo_host = Inr [0, 1] \<and>
   TransformerWithSharedParams_init demo_host [0, 1] (RECURSIVE demo_host)
     (CUDA_BEFORE demo_host)
     \<lparr>auto_wrap_policy = Transformer_auto_wrap_policy
         [''TransformerEncoderLayer'', ''TransformerDecoderLayer''],
      device_id = 0, sharding_strategy = HYBRID_SHARD demo_host\<rparr> = Inr 0 \<and>
   checks demo_process = []"
proof -
  have host: "cuda_current_device demo_host = Inr 0" "get_default_group demo_host = Inr [0, 1]"
    "TransformerWithSharedParams_init demo_host [0, 1] (RECURSIVE demo_host)
       (CUDA_BEFORE demo_host)
       \<lparr>auto_wrap_policy = Transformer_auto_wrap_policy
           [''TransformerEncoderLayer'', ''TransformerDecoderLayer''],
        device_id = 0, sharding_strategy = HYBRID_SHARD demo_host\<rparr> = Inr 0"
    by (simp_all add: demo_host_def)
  obtain r s' where run: "test_fsdp_hybrid_shard_basic_setup demo_host demo_process = (r, s')"
    by (cases "test_fsdp_hybrid_shard_basic_setup demo_host demo_process")
  from test_raises_NameError [OF run] host
  have "s' = demo_process" "r = Inl (NameError ''FullyShardedDataParallel'')"
    by blast+
  with run host show ?thesis by (simp add: demo_process_def)
qed

subsection \<open>The inter-node process group\<close>

lemma inter_node_group_set:
  assumes "0 < num_devices"
  shows "set (inter_node_group num_nodes num_devices rank) =
         designated_peers num_nodes num_devices rank"
proof (intro set_eqI iffI)
  fix w assume "w \<in> set (inter_node_group num_nodes num_devices rank)"
  then obtain node where node: "node < num_nodes"
    and w: "w = node * num_devices + rank mod num_devices"
    by (auto simp: inter_node_group_def position_def)
  have "rank mod num_devices < num_devices" using assms by simp
  then have "w < Suc node * num_devices" by (simp add: w)
  also have "\<dots> \<le> num_nodes * num_devices"
    using node by (intro mult_le_mono1) simp
  finally have "w < num_nodes * num_devices" .
  moreover have "w mod num_devices = rank mod num_devices" by (simp add: w)
  ultimately show "w \<in> designated_peers num_nodes num_devices rank"
    by (simp add: designated_peers_def position_def)
next
  fix w assume "w \<in> designated_peers num_nodes num_devices rank"
  then have lt: "w < num_nodes * num_devices" and md: "w mod num_devices = rank mod num_devices"
    by (auto simp: designated_peers_def position_def)
  from lt have "w div num_devices < num_nodes"
    by (simp add: less_mult_imp_div_less)
  moreover have "w = (w div num_devices) * num_devices + rank mod num_devices"
    using md by (metis div_mult_mod_eq)
  ultimately show "w \<in> set (inter_node_group num_nodes num_devices rank)"
    by (auto simp: inter_node_group_def position_def)
qed

lemma single_node_group: "inter_node_group (Suc 0) num_devices rank = [rank mod num_devices]"
  by (simp add: inter_node_group_def position_def)

lemma checks_two_workers:
  assumes "rank < 2"
  shows "inter_node_pg_checks (hybrid_shard_host 1 2 rank h) fsdp_module s =
     (Inr (), s\<lparr>checks := checks s @ [AssertFalse, AssertTrue]\<rparr>)"
proof -
  have r: "rank = 0 \<or> rank = 1" using assms by auto
  have up: "[0..<2] = [0, Suc 0]" by (simp add: upt_rec)
  from r show ?thesis
    by (auto simp: inter_node_pg_checks_def hybrid_shard_host_def bind_def ret_def
          host_call_def process_group_def load_global_bound bound_names single_node_group
          load_global_def python_builtins_def
          assertFalse_def assertTrue_def Let_def up)
qed


text \<open>
  Claim C1. Under hybrid sharding on \<open>num_nodes\<close> nodes of \<open>num_devices\<close> workers, the
  inter-node group that a rank observes on an FSDP module holds exactly the peers
  designated at its position, and \<^verbatim>\<open>_rank_not_in_group\<close> is true of exactly the other
  ranks. With two workers on one node the group of a rank is that rank alone:
  \<^verbatim>\<open>_rank_not_in_group\<close> is false for it and true for the other rank, and the membership
  checks of the test (lines 112 to 117) pass.
\<close>

theorem inter_node_group_holds_exactly_the_peers:
  "(0 < num_devices \<longrightarrow>
      get_inter_node_pg (hybrid_shard_host num_nodes num_devices rank h) fsdp_module =
        Inr (inter_node_group num_nodes num_devices rank) \<and>
      set (inter_node_group num_nodes num_devices rank) =
        designated_peers num_nodes num_devices rank \<and>
      (\<forall>r. rank_not_in_group (hybrid_shard_host num_nodes num_devices rank h) r
              (inter_node_group num_nodes num_devices rank) =
            Inr (r \<notin> designated_peers num_nodes num_devices rank)) \<and>
      (rank < num_nodes * num_devices \<longrightarrow>
         rank \<in> set (inter_node_group num_nodes num_devices rank))) \<and>
   (rank < 2 \<longrightarrow>
      inter_node_group 1 2 rank = [rank] \<and>
      rank_not_in_group (hybrid_shard_host 1 2 rank h) rank (inter_node_group 1 2 rank) =
        Inr False \<and>
      (\<forall>r. r \<noteq> rank \<longrightarrow>
         rank_not_in_group (hybrid_shard_host 1 2 rank h) r (inter_node_group 1 2 rank) =
           Inr True) \<and>
      inter_node_pg_checks (hybrid_shard_host 1 2 rank h) fsdp_module s =
        (Inr (), s\<lparr>checks := checks s @ [AssertFalse, AssertTrue]\<rparr>))"
proof (intro conjI impI)
  assume d: "0 < num_devices"
  show "get_inter_node_pg (hybrid_shard_host num_nodes num_devices rank h) fsdp_module =
        Inr (inter_node_group num_nodes num_devices rank)"
    by (simp add: hybrid_shard_host_def)
  show "set (inter_node_group num_nodes num_devices rank) =
        designated_peers num_nodes num_devices rank"
    by (rule inter_node_group_set [OF d])
  then show "\<forall>r. rank_not_in_group (hybrid_shard_host num_nodes num_devices rank h) r
              (inter_node_group num_nodes num_devices rank) =
            Inr (r \<notin> designated_peers num_nodes num_devices rank)"
    by (simp add: hybrid_shard_host_def)
  assume "rank < num_nodes * num_devices"
  then have "rank \<in> designated_peers num_nodes num_devices rank"
    by (simp add: designated_peers_def)
  then show "rank \<in> set (inter_node_group num_nodes num_devices rank)"
    by (simp add: inter_node_group_set [OF d])
next
  assume r: "rank < 2"
  then show "inter_node_group 1 2 rank = [rank]"
    by (simp add: single_node_group)
  show "rank_not_in_group (hybrid_shard_host 1 2 rank h) rank (inter_node_group 1 2 rank) =
        Inr False"
    using r by (simp add: single_node_group hybrid_shard_host_def)
  show "\<forall>r. r \<noteq> rank \<longrightarrow>
         rank_not_in_group (hybrid_shard_host 1 2 rank h) r (inter_node_group 1 2 rank) =
           Inr True"
    using r by (simp add: single_node_group hybrid_shard_host_def)
  show "inter_node_pg_checks (hybrid_shard_host 1 2 rank h) fsdp_module s =
        (Inr (), s\<lparr>checks := checks s @ [AssertFalse, AssertTrue]\<rparr>)"
    by (rule checks_two_workers [OF r])
qed

theorem inter_node_group_holds_exactly_the_peers_witness:
  "(0::nat) < 2 \<and> (1::nat) < 2 * 2 \<and>
   inter_node_group 2 2 1 = [1, 3] \<and>
   set (inter_node_group 2 2 1) = designated_peers 2 2 1 \<and>
   (1::nat) < 2 \<and>
   inter_node_group 1 2 1 = [1] \<and>
   inter_node_pg_checks (hybrid_shard_host 1 2 1 demo_host) 0 demo_process =
     (Inr (), demo_process\<lparr>checks := checks demo_process @ [AssertFalse, AssertTrue]\<rparr>)"
proof -
  have "inter_node_group 2 2 1 = [1, 3]"
    by (simp add: inter_node_group_def position_def upt_rec)
  with inter_node_group_holds_exactly_the_peers
         [where num_devices = 2 and num_nodes = 2 and rank = 1 and h = demo_host
            and fsdp_module = 0 and s = demo_process]
       inter_node_group_holds_exactly_the_peers
         [where num_devices = 2 and num_nodes = 1 and rank = 1 and h = demo_host
            and fsdp_module = 0 and s = demo_process]
  show ?thesis by simp
qed

end
